theory Spec2Isabelle
  imports Complex_Main
begin

section \<open>JavaScript numbers\<close>

text \<open>
  The options of \<open>pRetry\<close> are JavaScript numbers, IEEE doubles: besides the finite values
  they can be \<open>Infinity\<close> (the default of \<open>maxTimeout\<close> and \<open>maxRetryTime\<close>, and a legal
  value of \<open>retries\<close>), \<open>-Infinity\<close> and \<open>NaN\<close>. A finite number is modelled by the real
  number it is; the sign of zero is left out.
\<close>

datatype jsnum = Fin real | PInf | NInf | NaN

text \<open>
  A product or a power of doubles is the exact result rounded to a double, or an infinity
  when it overflows. The model does not compute that rounding: it takes it from the engine.
  \<open>rounded x\<close> is the number the engine returns for an operation whose exact result is the
  real \<open>x\<close>. \<open>power x k\<close> is what the engine returns for \<open>x ** k\<close> with \<open>x\<close> finite and
  not zero and \<open>k\<close> an integer other than zero: the language leaves that value to the
  implementation, which approximates it.
\<close>

record arith =
  rounded :: "real \<Rightarrow> jsnum"
  power :: "real \<Rightarrow> int \<Rightarrow> jsnum"

text \<open>
  An integer of magnitude at most \<open>2 ^ 53\<close> is a double: an operation whose exact result is
  such a number returns it, in every engine.
\<close>

definition exact_int :: "real \<Rightarrow> bool" where
  "exact_int p = (p = of_int \<lfloor>p\<rfloor> \<and> \<bar>p\<bar> \<le> 2 ^ 53)"

text \<open>
  \<open>a + b\<close>. The sums and differences of the program are \<open>retries + 1\<close>, \<open>attemptNumber - 1\<close>,
  \<open>retries - (attemptNumber - 1)\<close>, \<open>currentTime - startTime\<close> and
  \<open>maxRetryTime - (currentTime - startTime)\<close>, formed from a counter, from times in whole
  milliseconds and from the options; they are taken exact, as they are in doubles for
  integers of magnitude up to \<open>2 ^ 53\<close>.
\<close>

fun js_add :: "jsnum \<Rightarrow> jsnum \<Rightarrow> jsnum" where
  "js_add NaN _ = NaN"
| "js_add _ NaN = NaN"
| "js_add (Fin x) (Fin y) = Fin (x + y)"
| "js_add PInf NInf = NaN"
| "js_add NInf PInf = NaN"
| "js_add PInf _ = PInf"
| "js_add NInf _ = NInf"
| "js_add (Fin x) PInf = PInf"
| "js_add (Fin x) NInf = NInf"

text \<open>unary \<open>-a\<close> and \<open>a - b\<close>\<close>

fun js_neg :: "jsnum \<Rightarrow> jsnum" where
  "js_neg (Fin x) = Fin (- x)"
| "js_neg PInf = NInf"
| "js_neg NInf = PInf"
| "js_neg NaN = NaN"

definition js_sub :: "jsnum \<Rightarrow> jsnum \<Rightarrow> jsnum" where
  "js_sub a b = js_add a (js_neg b)"

text \<open>The sign of a number that is not \<open>NaN\<close>: \<open>-1\<close>, \<open>0\<close> or \<open>1\<close>.\<close>

fun js_sign :: "jsnum \<Rightarrow> int" where
  "js_sign (Fin x) = (if x < 0 then - 1 else if x = 0 then 0 else 1)"
| "js_sign PInf = 1"
| "js_sign NInf = - 1"
| "js_sign NaN = 0"

text \<open>
  \<open>a * b\<close> in the arithmetic \<open>ar\<close> of the engine. A factor of \<open>1\<close> leaves the other factor
  as it is, a product that is an integer of magnitude at most \<open>2 ^ 53\<close> is exact, and any
  other product of finite numbers is the engine's rounding of the exact product. Zero
  times an infinity is \<open>NaN\<close>.
\<close>

fun js_mul :: "'a arith_scheme \<Rightarrow> jsnum \<Rightarrow> jsnum \<Rightarrow> jsnum" where
  "js_mul ar NaN _ = NaN"
| "js_mul ar _ NaN = NaN"
| "js_mul ar (Fin x) (Fin y) =
     (if x = 1 then Fin y
      else if y = 1 then Fin x
      else if exact_int (x * y) then Fin (x * y)
      else rounded ar (x * y))"
| "js_mul ar a b =
     (if js_sign a * js_sign b = 0 then NaN
      else if js_sign a * js_sign b > 0 then PInf else NInf)"

text \<open>The comparisons \<open>a < b\<close>, \<open>a <= b\<close>, \<open>a > b\<close>, \<open>a >= b\<close>: false as soon as an operand is \<open>NaN\<close>.\<close>

fun js_lt :: "jsnum \<Rightarrow> jsnum \<Rightarrow> bool" where
  "js_lt NaN _ = False"
| "js_lt _ NaN = False"
| "js_lt (Fin x) (Fin y) = (x < y)"
| "js_lt PInf _ = False"
| "js_lt NInf NInf = False"
| "js_lt NInf _ = True"
| "js_lt (Fin x) PInf = True"
| "js_lt (Fin x) NInf = False"

fun js_le :: "jsnum \<Rightarrow> jsnum \<Rightarrow> bool" where
  "js_le NaN _ = False"
| "js_le _ NaN = False"
| "js_le a b = (\<not> js_lt b a)"

definition js_gt :: "jsnum \<Rightarrow> jsnum \<Rightarrow> bool" where
  "js_gt a b = js_lt b a"

definition js_ge :: "jsnum \<Rightarrow> jsnum \<Rightarrow> bool" where
  "js_ge a b = js_le b a"

text \<open>\<open>Math.min(a, b)\<close> and \<open>Math.max(a, b)\<close>: \<open>NaN\<close> as soon as an argument is \<open>NaN\<close>.\<close>

fun js_min :: "jsnum \<Rightarrow> jsnum \<Rightarrow> jsnum" where
  "js_min NaN _ = NaN"
| "js_min _ NaN = NaN"
| "js_min a b = (if js_lt b a then b else a)"

fun js_max :: "jsnum \<Rightarrow> jsnum \<Rightarrow> jsnum" where
  "js_max NaN _ = NaN"
| "js_max _ NaN = NaN"
| "js_max a b = (if js_lt a b then b else a)"

text \<open>
  \<open>Math.round(a)\<close>: the nearest integer, a half rounded towards \<open>+Infinity\<close>. The result is
  a double whenever the argument is one.
\<close>

fun js_round :: "jsnum \<Rightarrow> jsnum" where
  "js_round (Fin x) = Fin (of_int \<lfloor>x + 1 / 2\<rfloor>)"
| "js_round a = a"

text \<open>
  \<open>a ** k\<close> for an integer exponent \<open>k\<close> (the only exponent the program uses is
  \<open>attempt - 1\<close>), in the arithmetic \<open>ar\<close> of the engine. The language fixes the result for
  an exponent of zero (\<open>1\<close> for every base, \<open>NaN\<close> included) and for the bases \<open>NaN\<close>, zero
  and the infinities; for any other base the result is the engine's.
\<close>

fun js_pow :: "'a arith_scheme \<Rightarrow> jsnum \<Rightarrow> int \<Rightarrow> jsnum" where
  "js_pow ar a k =
     (if k = 0 then Fin 1
      else case a of
        NaN \<Rightarrow> NaN
      | Fin x \<Rightarrow>
          (if x = 0 then (if 0 < k then Fin 0 else PInf)
           else power ar x k)
      | PInf \<Rightarrow> (if 0 < k then PInf else Fin 0)
      | NInf \<Rightarrow> (if 0 < k then (if even k then PInf else NInf) else Fin 0))"

declare js_pow.simps [simp del]

section \<open>Thrown values\<close>

text \<open>
  What the program asks of a thrown value \<open>e\<close> is \<open>e instanceof Error\<close>,
  \<open>e instanceof TypeError\<close> and \<open>e instanceof AbortError\<close>. \<open>AbortErrorC\<close> is the class
  \<open>AbortError\<close> of \<open>errors/abort.error.ts\<close> (it extends \<open>Error\<close>), \<open>TypeErrorC\<close> is
  \<open>TypeError\<close>, \<open>PlainError\<close> is every other class of errors.
\<close>

datatype errclass = PlainError | TypeErrorC | AbortErrorC

text \<open>
  A JavaScript value as far as it can be thrown: an error object with its class, its
  \<open>message\<close> and its \<open>cause\<close>, or a value that is not an error: \<open>undefined\<close>, \<open>null\<close>, a
  string, a \<open>Symbol\<close> with its description, or any other value (a number, a boolean, an
  object). What the program does with a value that is not an error is to convert it to a
  string, which runs the value's own conversion: \<open>Other\<close> carries what that gives, the
  string (\<open>Inr\<close>) or the value that the conversion throws (\<open>Inl\<close>), as for an object
  without a usable \<open>toString\<close>.
\<close>

datatype jsval =
    Undefined
  | Null
  | Str string
  | Symbol string
  | Other "jsval + string"
  | ErrorObj (cls: errclass) (message: string) (cause: "jsval option")

fun instanceof_Error :: "jsval \<Rightarrow> bool" where
  "instanceof_Error (ErrorObj c m x) = True"
| "instanceof_Error _ = False"

fun instanceof_TypeError :: "jsval \<Rightarrow> bool" where
  "instanceof_TypeError (ErrorObj c m x) = (c = TypeErrorC)"
| "instanceof_TypeError _ = False"

fun instanceof_AbortError :: "jsval \<Rightarrow> bool" where
  "instanceof_AbortError (ErrorObj c m x) = (c = AbortErrorC)"
| "instanceof_AbortError _ = False"

text \<open>\<open>new Error(m)\<close> and \<open>new TypeError(m)\<close>\<close>

definition new_Error :: "string \<Rightarrow> jsval" where
  "new_Error m = ErrorObj PlainError m None"

definition new_TypeError :: "string \<Rightarrow> jsval" where
  "new_TypeError m = ErrorObj TypeErrorC m None"

text \<open>
  The \<open>TypeError\<close> of line 73 for a thrown value that the template literal renders as \<open>s\<close>.
\<close>

definition non_error_thrown :: "string \<Rightarrow> jsval" where
  \<open>non_error_thrown s =
     new_TypeError (''Non-error was thrown: "'' @ s @ ''". You should only throw errors.'')\<close>

text \<open>What a call or an awaited promise gives: a value, or a thrown value (a rejection).\<close>

datatype 'a outcome = Returns 'a | Throws jsval

section \<open>Options, retry context and environment\<close>

text \<open>\<open>RetryContext\<close> of \<open>types/retry-context.interface.ts\<close>\<close>

record RetryContext =
  error :: jsval
  attemptNumber :: nat
  retriesLeft :: jsnum

text \<open>
  The cancellation signal. Each place where the program observes the signal is a
  checkpoint, and \<open>aborted\<close> says what it observes there: the check at the call (line 53),
  the checks before and after the call of \<open>input\<close> in attempt \<open>n\<close> (lines 64 and 68), the
  \<open>abort\<close> event arriving while the timer of attempt \<open>n\<close> is pending (lines 116 to 123),
  and the check after the delay of attempt \<open>n\<close> (line 127).
\<close>

datatype checkpoint = AtCall | BeforeInput nat | AfterInput nat | InDelay nat | AfterDelay nat

record signal =
  reason :: jsval
  aborted :: "checkpoint \<Rightarrow> bool"

text \<open>\<open>Options\<close> of \<open>types/options.interface.ts\<close>: every field is optional.\<close>

record options =
  opt_onFailedAttempt :: "(RetryContext \<Rightarrow> unit outcome) option"
  opt_shouldRetry :: "(RetryContext \<Rightarrow> bool outcome) option"
  opt_retries :: "jsnum option"
  opt_factor :: "jsnum option"
  opt_minTimeout :: "jsnum option"
  opt_maxTimeout :: "jsnum option"
  opt_randomize :: "bool option"
  opt_maxRetryTime :: "jsnum option"
  opt_signal :: "signal option"
  opt_unref :: "bool option"

text \<open>
  The fields of \<open>mergedOptions\<close> that \<open>calculateDelay\<close> reads
  (\<open>MakeRequired<Options, 'factor' | 'minTimeout' | 'maxTimeout'>\<close>: \<open>randomize\<close> stays
  optional there, and an absent \<open>randomize\<close> is falsy).
\<close>

record backoff =
  factor :: jsnum
  minTimeout :: jsnum
  maxTimeout :: jsnum
  randomize :: "bool option"

text \<open>\<open>mergedOptions\<close> of \<open>pRetry\<close>: the options with the defaults filled in.\<close>

record mergedOptions = backoff +
  retries :: jsnum
  maxRetryTime :: jsnum
  onFailedAttempt :: "RetryContext \<Rightarrow> unit outcome"
  shouldRetry :: "RetryContext \<Rightarrow> bool outcome"
  signal :: "signal option"
  unref :: bool

text \<open>
  What one run reads from outside, besides the arithmetic of the engine:
  \<open>date_now 0\<close> is the value of \<open>Date.now()\<close> at line 56
  (\<open>startTime\<close>), \<open>date_now n\<close> its value at line 84 in attempt \<open>n\<close> (\<open>currentTime\<close>);
  \<open>math_random n\<close> is what \<open>Math.random()\<close> returns in attempt \<open>n\<close>.
\<close>

record env = arith +
  date_now :: "nat \<Rightarrow> int"
  math_random :: "nat \<Rightarrow> real"

text \<open>
  What a run does that can be seen from outside, in order: the calls of \<open>input\<close> and of the
  two hooks with their arguments, the timer set by \<open>setTimeout\<close> with its duration, the call
  of \<open>unref\<close> on it, and the cancellation of the pending timer. A call of \<open>clearTimeout\<close>
  on a timer that has fired cancels nothing and is not an event.
\<close>

datatype event =
    Invoke nat
  | OnFailedAttempt RetryContext
  | ShouldRetry RetryContext
  | SetTimeout jsnum
  | Unref
  | TimerCancelled

text \<open>How the promise of \<open>pRetry\<close> settles.\<close>

datatype 'a settled = Fulfilled 'a | Rejected jsval

text \<open>What one iteration of the loop leaves: the promise settled, or the next iteration.\<close>

datatype 'a step = Done "'a settled" | Continue

section \<open>The delay calculator\<close>

text \<open>
  \<open>calculateDelay(attempt, options)\<close>. The first argument of the model is the arithmetic
  of the engine, the second the value that \<open>Math.random()\<close> returns when it is called, a
  number in \<open>[0, 1)\<close>; it is consumed only when \<open>options.randomize\<close> is truthy, and
  \<open>Math.random() + 1\<close> is then the engine's rounding of the sum.
\<close>

definition calculateDelay :: "'b arith_scheme \<Rightarrow> real \<Rightarrow> int \<Rightarrow> 'a backoff_scheme \<Rightarrow> jsnum" where
  "calculateDelay ar rnd attempt options =
     (let random = (if randomize options = Some True then rounded ar (rnd + 1) else Fin 1);
          timeout = js_round (js_mul ar (js_mul ar random (js_max (minTimeout options) (Fin 1)))
                                        (js_pow ar (factor options) (attempt - 1)));
          timeout = js_min timeout (maxTimeout options)
      in timeout)"

section \<open>The retry context\<close>

text \<open>The counter \<open>attemptNumber\<close>, a natural number in the model, as a number.\<close>

definition num :: "nat \<Rightarrow> jsnum" where
  "num n = Fin (real n)"

text \<open>\<open>createRetryContext(error, attemptNumber, retries)\<close>\<close>

definition createRetryContext :: "jsval \<Rightarrow> nat \<Rightarrow> jsnum \<Rightarrow> RetryContext" where
  "createRetryContext err attempt rs =
     (let left = js_sub rs (js_sub (num attempt) (Fin 1))
      in \<lparr>error = err, attemptNumber = attempt, retriesLeft = left\<rparr>)"

section \<open>The retry engine\<close>

text \<open>Lines 36 to 47 of \<open>pRetry\<close>: \<open>a ?? b\<close> is \<open>b\<close> when \<open>a\<close> is absent.\<close>

definition merge_options :: "options \<Rightarrow> mergedOptions" where
  "merge_options opts =
     \<lparr>factor = (case opt_factor opts of Some v \<Rightarrow> v | None \<Rightarrow> Fin 2),
      minTimeout = (case opt_minTimeout opts of Some v \<Rightarrow> v | None \<Rightarrow> Fin 1000),
      maxTimeout = (case opt_maxTimeout opts of Some v \<Rightarrow> v | None \<Rightarrow> PInf),
      randomize = Some (case opt_randomize opts of Some v \<Rightarrow> v | None \<Rightarrow> False),
      retries = (case opt_retries opts of Some v \<Rightarrow> v | None \<Rightarrow> Fin 10),
      maxRetryTime = (case opt_maxRetryTime opts of Some v \<Rightarrow> v | None \<Rightarrow> PInf),
      onFailedAttempt = (case opt_onFailedAttempt opts of Some h \<Rightarrow> h | None \<Rightarrow> (\<lambda>c. Returns ())),
      shouldRetry = (case opt_shouldRetry opts of Some h \<Rightarrow> h | None \<Rightarrow> (\<lambda>c. Returns True)),
      signal = opt_signal opts,
      unref = (case opt_unref opts of Some v \<Rightarrow> v | None \<Rightarrow> False)\<rparr>"

text \<open>
  \<open>mergedOptions.signal?.throwIfAborted()\<close>: the method of the platform's \<open>AbortSignal\<close>,
  which throws \<open>signal.reason\<close> when the signal is aborted. (The helper of
  \<open>utils/throw-if-aborted.util.ts\<close> is not what \<open>pRetry\<close> calls.)
\<close>

definition signal_throwIfAborted :: "signal option \<Rightarrow> checkpoint \<Rightarrow> jsval option" where
  "signal_throwIfAborted sg cp =
     (case sg of
        None \<Rightarrow> None
      | Some s \<Rightarrow> (if aborted s cp then Some (reason s) else None))"

text \<open>
  The \<open>try\<close> block of the loop (lines 64 to 70) in attempt \<open>n\<close>: \<open>Inl\<close> is the value it
  throws, \<open>Inr\<close> the value it returns.
\<close>

definition try_block ::
  "signal option \<Rightarrow> (nat \<Rightarrow> 'a outcome) \<Rightarrow> nat \<Rightarrow> (jsval + 'a) \<times> event list" where
  "try_block sg input n =
     (case signal_throwIfAborted sg (BeforeInput n) of
        Some r \<Rightarrow> (Inl r, [])
      | None \<Rightarrow>
          (case input n of
             Throws e \<Rightarrow> (Inl e, [Invoke n])
           | Returns result \<Rightarrow>
               (case signal_throwIfAborted sg (AfterInput n) of
                  Some r \<Rightarrow> (Inl r, [Invoke n])
                | None \<Rightarrow> (Inr result, [Invoke n]))))"

text \<open>
  Lines 72 and 73, the value of \<open>error\<close>: the thrown value itself when it is an error,
  otherwise the \<open>TypeError\<close> whose message holds the thrown value as the template literal
  \<open>`${e}`\<close> renders it (\<open>Inr\<close>). The template literal converts the value to a string, and
  that conversion can throw: of a \<open>Symbol\<close> it always does (a \<open>TypeError\<close>, here with the
  message of Node, the engine that \<open>package.json\<close> asks for), of another value it may.
  Line 73 then throws inside the \<open>catch\<close> block (\<open>Inl\<close>, the value thrown).
\<close>

fun as_error :: "jsval \<Rightarrow> jsval + jsval" where
  "as_error (ErrorObj c m x) = Inr (ErrorObj c m x)"
| "as_error Undefined = Inr (non_error_thrown ''undefined'')"
| "as_error Null = Inr (non_error_thrown ''null'')"
| "as_error (Str s) = Inr (non_error_thrown s)"
| "as_error (Symbol d) = Inl (new_TypeError ''Cannot convert a Symbol value to a string'')"
| "as_error (Other (Inr s)) = Inr (non_error_thrown s)"
| "as_error (Other (Inl t)) = Inl t"

text \<open>
  The condition of line 75, for the caught value \<open>e\<close> and the value \<open>err\<close> of \<open>error\<close>.
  \<open>isNetworkError\<close> is a helper of \<open>utils\<close> whose source is not at hand: it is a parameter
  of the model.
\<close>

definition is_fatal :: "(jsval \<Rightarrow> bool) \<Rightarrow> jsval \<Rightarrow> jsval \<Rightarrow> bool" where
  "is_fatal isNetworkError e err =
     (instanceof_AbortError e \<or> (instanceof_TypeError e \<and> \<not> isNetworkError err))"

text \<open>
  Lines 108 to 125, the delay: the timer is set and the program waits for it. When the
  \<open>abort\<close> event arrives first, the listener of this delay clears the timer, which is
  pending, and rejects with \<open>signal.reason ?? new Error('Operation aborted by user')\<close>, which
  the \<open>await\<close> throws. The listeners of the earlier delays are still registered
  (\<open>once: true\<close> removes a listener only when it has run, and the program removes none):
  they run on the same event, and each calls \<open>clearTimeout\<close> on a timer that has fired and
  \<open>reject\<close> on a promise that is settled, which does nothing.
\<close>

definition delay :: "mergedOptions \<Rightarrow> nat \<Rightarrow> jsnum \<Rightarrow> jsval option \<times> event list" where
  "delay mo n finalDelay =
     (if js_gt finalDelay (Fin 0) then
        (let timer = SetTimeout finalDelay # (if unref mo then [Unref] else [])
         in case signal mo of
              None \<Rightarrow> (None, timer)
            | Some s \<Rightarrow>
                (if aborted s (InDelay n)
                 then (Some (if reason s = Undefined \<or> reason s = Null
                             then new_Error ''Operation aborted by user'' else reason s),
                       timer @ [TimerCancelled])
                 else (None, timer)))
      else (None, []))"

text \<open>
  Lines 94 to 127: the delay before the next attempt and the check of the signal after it.
  \<open>elapsed\<close> is \<open>currentTime - startTime\<close>. The result is the value thrown, if one is, and
  the events.
\<close>

definition backoff_wait :: "env \<Rightarrow> mergedOptions \<Rightarrow> nat \<Rightarrow> jsval \<Rightarrow> jsnum \<Rightarrow> jsval option \<times> event list" where
  "backoff_wait ev mo n err elapsed =
     (let delayTime = calculateDelay ev (math_random ev n) (int n) mo;
          timeLeft = js_sub (maxRetryTime mo) elapsed
      in if js_le timeLeft (Fin 0) then (Some err, [])
         else
           (let finalDelay = js_min delayTime timeLeft
            in case delay mo n finalDelay of
                 (Some r, evs) \<Rightarrow> (Some r, evs)
               | (None, evs) \<Rightarrow> (signal_throwIfAborted (signal mo) (AfterDelay n), evs)))"

text \<open>\<open>currentTime - startTime\<close> in attempt \<open>n\<close> (lines 56 and 84).\<close>

definition elapsed :: "env \<Rightarrow> nat \<Rightarrow> jsnum" where
  "elapsed ev n =
     (let currentTime = Fin (of_int (date_now ev n));
          startTime = Fin (of_int (date_now ev 0))
      in js_sub currentTime startTime)"

text \<open>
  The first two disjuncts of the condition of lines 86 to 90: the time budget is used up,
  or this was the last attempt. \<open>shouldRetry\<close> is called only when both are false.
\<close>

definition out_of_budget :: "env \<Rightarrow> mergedOptions \<Rightarrow> nat \<Rightarrow> bool" where
  "out_of_budget ev mo n =
     (js_ge (elapsed ev n) (maxRetryTime mo) \<or> js_ge (num n) (js_add (retries mo) (Fin 1)))"

text \<open>
  The \<open>catch\<close> block of the loop (lines 71 to 128) in attempt \<open>n\<close>, for the caught value
  \<open>e\<close>. The result is the value the block throws, if it throws, and its events: a value
  thrown inside the block leaves \<open>pRetry\<close>, whose promise is rejected with it; when the
  block throws nothing the loop goes on.
\<close>

definition catch_block ::
  "(jsval \<Rightarrow> bool) \<Rightarrow> env \<Rightarrow> mergedOptions \<Rightarrow> nat \<Rightarrow> jsval \<Rightarrow> jsval option \<times> event list" where
  "catch_block isNetworkError ev mo n e =
     (case as_error e of
        Inl t \<Rightarrow> (Some t, [])
      | Inr err \<Rightarrow>
          (if is_fatal isNetworkError e err then (Some e, [])
           else
             (let context = createRetryContext err n (retries mo)
              in case onFailedAttempt mo context of
                   Throws h \<Rightarrow> (Some h, [OnFailedAttempt context])
                 | Returns u \<Rightarrow>
                     (if out_of_budget ev mo n
                      then (Some err, [OnFailedAttempt context])
                      else
                        (case shouldRetry mo context of
                           Throws h \<Rightarrow> (Some h, [OnFailedAttempt context, ShouldRetry context])
                         | Returns b \<Rightarrow>
                             (if \<not> b
                              then (Some err, [OnFailedAttempt context, ShouldRetry context])
                              else
                                (case backoff_wait ev mo n err (elapsed ev n) of
                                   (r, evs) \<Rightarrow> (r, [OnFailedAttempt context, ShouldRetry context] @ evs))))))))"

text \<open>One iteration of the loop, lines 61 to 128, with \<open>attemptNumber\<close> already incremented to \<open>n\<close>.\<close>

definition attempt ::
  "(jsval \<Rightarrow> bool) \<Rightarrow> env \<Rightarrow> (nat \<Rightarrow> 'a outcome) \<Rightarrow> mergedOptions \<Rightarrow> nat \<Rightarrow> 'a step \<times> event list" where
  "attempt isNetworkError ev input mo n =
     (case try_block (signal mo) input n of
        (Inr result, evs) \<Rightarrow> (Done (Fulfilled result), evs)
      | (Inl e, evs) \<Rightarrow>
          (case catch_block isNetworkError ev mo n e of
             (Some r, evs') \<Rightarrow> (Done (Rejected r), evs @ evs')
           | (None, evs') \<Rightarrow> (Continue, evs @ evs')))"

text \<open>
  The loop of lines 60 to 133, from its head with \<open>attemptNumber = a\<close> and the events so
  far. With \<open>retries = Infinity\<close> the loop need not end: the result is \<open>None\<close> when it does
  not.
\<close>

partial_function (option) retry_loop ::
  "(jsval \<Rightarrow> bool) \<Rightarrow> env \<Rightarrow> (nat \<Rightarrow> 'a outcome) \<Rightarrow> mergedOptions \<Rightarrow> nat \<Rightarrow> event list
     \<Rightarrow> ('a settled \<times> event list) option" where
  "retry_loop isNetworkError ev input mo a tr =
     (if js_lt (num a) (js_add (retries mo) (Fin 1)) then
        (case attempt isNetworkError ev input mo (Suc a) of
           (Done r, evs) \<Rightarrow> Some (r, tr @ evs)
         | (Continue, evs) \<Rightarrow> retry_loop isNetworkError ev input mo (Suc a) (tr @ evs))
      else Some (Rejected (new_Error ''Retry attempts exhausted without throwing an error.''), tr))"

declare retry_loop.simps [code]

text \<open>
  \<open>pRetry(input, options)\<close>: how the returned promise settles, and the events of the run.
  \<open>typeof options.retries === 'number'\<close> holds when the option is present.
\<close>

definition pRetry ::
  "(jsval \<Rightarrow> bool) \<Rightarrow> env \<Rightarrow> (nat \<Rightarrow> 'a outcome) \<Rightarrow> options \<Rightarrow> ('a settled \<times> event list) option" where
  "pRetry isNetworkError ev input opts =
     (let mo = merge_options opts
      in if opt_retries opts \<noteq> None \<and> js_lt (retries mo) (Fin 0)
         then Some (Rejected (new_TypeError ''Expected `retries` to be a non-negative number.''), [])
         else
           (case signal_throwIfAborted (signal mo) AtCall of
              Some r \<Rightarrow> Some (Rejected r, [])
            | None \<Rightarrow> retry_loop isNetworkError ev input mo 0 []))"

text \<open>The attempt numbers with which a run called \<open>input\<close>, in order.\<close>

fun invocations :: "event list \<Rightarrow> nat list" where
  "invocations [] = []"
| "invocations (Invoke n # es) = n # invocations es"
| "invocations (e # es) = invocations es"

section \<open>Concrete runs\<close>

text \<open>\<open>options = {}\<close>, the default of the second parameter of \<open>pRetry\<close>.\<close>

definition empty_options :: options where
  "empty_options = \<lparr>opt_onFailedAttempt = None, opt_shouldRetry = None, opt_retries = None,
     opt_factor = None, opt_minTimeout = None, opt_maxTimeout = None, opt_randomize = None,
     opt_maxRetryTime = None, opt_signal = None, opt_unref = None\<rparr>"

text \<open>
  An engine and a clock for the runs below. The numbers of these runs are small integers,
  on which no engine rounds: the arithmetic returns the exact results. The clock advances
  by 50 ms from one attempt to the next.
\<close>

definition steady_env :: env where
  "steady_env =
     \<lparr>rounded = (\<lambda>x. Fin x),
      power = (\<lambda>x k. if 0 \<le> k then Fin (x ^ nat k) else Fin (1 / x ^ nat (- k))),
      date_now = (\<lambda>n. 50 * int n),
      math_random = (\<lambda>n. 0)\<rparr>"

text \<open>
  An engine at the numbers of one delay, that of \<open>factor: 1.15\<close> and \<open>minTimeout: 10\<close> after
  the second attempt. The number \<open>1.15\<close> is the double \<open>5179139571476070 / 2 ^ 52\<close>, a
  little less than \<open>1.15\<close>. Ten times that number, \<open>11.5 - 2 ^ - 50\<close>, is not a double: it
  lies half way between two, and an engine rounds it to the even one, \<open>11.5\<close>. The power
  \<open>x ** 1\<close> is \<open>x\<close>.
\<close>

definition double_1_15 :: real where
  "double_1_15 = 5179139571476070 / 2 ^ 52"

definition engine_at_1_15 :: arith where
  "engine_at_1_15 =
     \<lparr>rounded = (\<lambda>p. if p = 10 * double_1_15 then Fin (23 / 2) else Fin p),
      power = (\<lambda>x k. if k = 1 then Fin x else NaN)\<rparr>"

text \<open>
  The run of the test "should stop retrying immediately on AbortError": \<open>retries: 5\<close>,
  \<open>minTimeout: 10\<close>, an operation that throws an \<open>Error\<close> twice and then an
  \<open>AbortError\<close> with a cause. \<open>first_two_attempts\<close> are the events of the first two
  iterations of that run.
\<close>

definition abort_on_third :: "nat \<Rightarrow> unit outcome" where
  "abort_on_third n =
     (if n = 3 then Throws (ErrorObj AbortErrorC ''No point in retrying'' (Some (new_Error ''fixture'')))
      else Throws (new_Error ''Temporary failure''))"

definition retries5 :: options where
  "retries5 = empty_options\<lparr>opt_retries := Some (Fin 5), opt_minTimeout := Some (Fin 10)\<rparr>"

definition first_two_attempts :: "event list" where
  "first_two_attempts =
     (let c1 = createRetryContext (new_Error ''Temporary failure'') 1 (Fin 5);
          c2 = createRetryContext (new_Error ''Temporary failure'') 2 (Fin 5)
      in [Invoke 1, OnFailedAttempt c1, ShouldRetry c1, SetTimeout (Fin 10),
          Invoke 2, OnFailedAttempt c2, ShouldRetry c2, SetTimeout (Fin 20)])"

text \<open>
  The operation and the options of the tests "should allow throwing to abort retries" and
  "should control retry behavior", the latter with a \<open>shouldRetry\<close> that always refuses.
\<close>

definition always_fixture :: "nat \<Rightarrow> unit outcome" where
  "always_fixture n = Throws (new_Error ''fixture'')"

definition throwing_hook :: options where
  "throwing_hook = empty_options
     \<lparr>opt_onFailedAttempt := Some (\<lambda>c. Throws (new_Error ''thrown from onFailedAttempt''))\<rparr>"

definition never_retry :: options where
  "never_retry = empty_options\<lparr>opt_shouldRetry := Some (\<lambda>c. Returns False)\<rparr>"

text \<open>
  The operation of the test "should throw useful error message when non-error is thrown",
  \<open>throw 'foo'\<close>, and an operation that throws a \<open>Symbol\<close>, \<open>throw Symbol('s')\<close>.
\<close>

definition throws_foo :: "nat \<Rightarrow> unit outcome" where
  "throws_foo n = Throws (Str ''foo'')"

definition throws_symbol :: "nat \<Rightarrow> unit outcome" where
  "throws_symbol n = Throws (Symbol ''s'')"

text \<open>
  A signal that \<open>controller.abort(new Error('Database unavailable'))\<close> aborts while the
  timer after the first attempt is pending; every later check sees it aborted.
\<close>

definition abort_in_first_delay :: signal where
  "abort_in_first_delay =
     \<lparr>reason = new_Error ''Database unavailable'',
      aborted = (\<lambda>cp. case cp of
                  AtCall \<Rightarrow> False
                | BeforeInput n \<Rightarrow> 2 \<le> n
                | AfterInput n \<Rightarrow> 2 \<le> n
                | InDelay n \<Rightarrow> n = 1
                | AfterDelay n \<Rightarrow> 1 \<le> n)\<rparr>"

section \<open>Arithmetic of the numbers\<close>

lemma js_mul_one_left: "js_mul ar (Fin 1) x = x"
  by (cases x) simp_all

lemma js_round_int: "p \<in> \<int> \<Longrightarrow> js_round (Fin p) = Fin p"
  by (auto elim!: Ints_cases)

lemma exact_int_Ints: "exact_int p \<Longrightarrow> p \<in> \<int>"
  unfolding exact_int_def by (metis Ints_of_int)

lemma js_mul_exact:
  assumes "exact_int (x * y)"
  shows "js_mul ar (Fin x) (Fin y) = Fin (x * y)"
  using assms by simp

lemma js_max_fin: "js_max (Fin m) (Fin 1) = Fin (max m 1)"
  by (simp add: max_def)

lemma guard_fin: "js_lt (num a) (Fin (real N + 1)) \<longleftrightarrow> a < Suc N"
  by (simp add: num_def) linarith

lemma last_fin: "js_ge (num n) (Fin (real N + 1)) \<longleftrightarrow> Suc N \<le> n"
  by (simp add: num_def js_ge_def) linarith

lemma elapsed_fin: "elapsed ev n = Fin (real_of_int (date_now ev n) - real_of_int (date_now ev 0))"
  by (simp add: elapsed_def js_sub_def)

lemma no_budget_PInf: "js_ge (Fin x) PInf = False" "js_sub PInf (Fin x) = PInf" "js_le PInf (Fin y) = False"
  by (simp_all add: js_ge_def js_sub_def)

lemma out_of_budget_fin:
  assumes "maxRetryTime mo = PInf" and "retries mo = Fin (real N)"
  shows "out_of_budget ev mo n \<longleftrightarrow> Suc N \<le> n"
  using assms by (simp add: out_of_budget_def elapsed_fin no_budget_PInf last_fin)

lemma calculateDelay_fixed:
  assumes "randomize options \<noteq> Some True"
  shows "calculateDelay ar rnd k options =
      js_min (js_round (js_mul ar (js_max (minTimeout options) (Fin 1))
                                  (js_pow ar (factor options) (k - 1))))
             (maxTimeout options)"
  using assms by (simp add: calculateDelay_def js_mul_one_left)

section \<open>The loop, one iteration at a time\<close>

lemma invocations_append: "invocations (xs @ ys) = invocations xs @ invocations ys"
  by (induction xs rule: invocations.induct) simp_all

lemma loop_done:
  assumes "js_lt (num a) (js_add (retries mo) (Fin 1))"
    and "attempt P ev input mo (Suc a) = (Done r, evs)"
  shows "retry_loop P ev input mo a tr = Some (r, tr @ evs)"
  using assms by (subst retry_loop.simps) simp

lemma loop_continue:
  assumes "js_lt (num a) (js_add (retries mo) (Fin 1))"
    and "attempt P ev input mo (Suc a) = (Continue, evs)"
  shows "retry_loop P ev input mo a tr = retry_loop P ev input mo (Suc a) (tr @ evs)"
  using assms by (subst retry_loop.simps) simp

lemma loop_exit:
  assumes "\<not> js_lt (num a) (js_add (retries mo) (Fin 1))"
  shows "retry_loop P ev input mo a tr =
     Some (Rejected (new_Error ''Retry attempts exhausted without throwing an error.''), tr)"
  using assms by (subst retry_loop.simps) simp

lemma throwIfAborted_no_signal: "signal_throwIfAborted None cp = None"
  by (simp add: signal_throwIfAborted_def)

lemma pRetry_enters_loop:
  assumes "opt_retries opts = None \<or> \<not> js_lt (retries (merge_options opts)) (Fin 0)"
    and "signal_throwIfAborted (signal (merge_options opts)) AtCall = None"
  shows "pRetry P ev input opts = retry_loop P ev input (merge_options opts) 0 []"
  using assms by (auto simp add: pRetry_def Let_def)

lemma try_block_throws:
  assumes "signal_throwIfAborted sg (BeforeInput n) = None" and "input n = Throws e"
  shows "try_block sg input n = (Inl e, [Invoke n])"
  using assms by (simp add: try_block_def)

lemma attempt_rethrows:
  assumes "try_block (signal mo) input n = (Inl e, evs0)"
    and "catch_block P ev mo n e = (Some r, evs)"
  shows "attempt P ev input mo n = (Done (Rejected r), evs0 @ evs)"
  using assms by (simp add: attempt_def)

lemma attempt_goes_on:
  assumes "try_block (signal mo) input n = (Inl e, evs0)"
    and "catch_block P ev mo n e = (None, evs)"
  shows "attempt P ev input mo n = (Continue, evs0 @ evs)"
  using assms by (simp add: attempt_def)

lemma attempt_events:
  assumes "try_block (signal mo) input n = (Inl e, evs0)"
  shows "snd (attempt P ev input mo n) = evs0 @ snd (catch_block P ev mo n e)"
  using assms by (simp add: attempt_def split: prod.splits option.splits)

section \<open>The catch block, case by case\<close>

lemma as_error_of_error: "instanceof_Error e \<Longrightarrow> as_error e = Inr e"
  by (cases e) simp_all

lemma is_fatal_iff:
  assumes "instanceof_AbortError e \<or> instanceof_TypeError e"
  shows "as_error e = Inr e"
    and "is_fatal P e e \<longleftrightarrow> instanceof_AbortError e \<or> (instanceof_TypeError e \<and> \<not> P e)"
  using assms by (cases e; simp add: is_fatal_def)+

lemma catch_conversion_throws:
  assumes "as_error e = Inl t"
  shows "catch_block P ev mo n e = (Some t, [])"
  using assms by (simp add: catch_block_def)

lemma catch_fatal:
  assumes "as_error e = Inr err" and "is_fatal P e err"
  shows "catch_block P ev mo n e = (Some e, [])"
  using assms by (simp add: catch_block_def)

lemma catch_hook_throws:
  assumes "as_error e = Inr err" and "\<not> is_fatal P e err"
    and "onFailedAttempt mo (createRetryContext err n (retries mo)) = Throws h"
  shows "catch_block P ev mo n e =
     (Some h, [OnFailedAttempt (createRetryContext err n (retries mo))])"
  using assms by (simp add: catch_block_def Let_def)

lemma catch_out_of_budget:
  assumes "as_error e = Inr err" and "\<not> is_fatal P e err"
    and "onFailedAttempt mo (createRetryContext err n (retries mo)) = Returns u"
    and "out_of_budget ev mo n"
  shows "catch_block P ev mo n e =
     (Some err, [OnFailedAttempt (createRetryContext err n (retries mo))])"
  using assms by (simp add: catch_block_def Let_def)

lemma catch_shouldRetry_false:
  assumes "as_error e = Inr err" and "\<not> is_fatal P e err"
    and "onFailedAttempt mo (createRetryContext err n (retries mo)) = Returns u"
    and "\<not> out_of_budget ev mo n"
    and "shouldRetry mo (createRetryContext err n (retries mo)) = Returns False"
  shows "catch_block P ev mo n e =
     (Some err, [OnFailedAttempt (createRetryContext err n (retries mo)),
                 ShouldRetry (createRetryContext err n (retries mo))])"
  using assms by (simp add: catch_block_def Let_def)

lemma catch_hook_first:
  assumes "as_error e = Inr err" and "\<not> is_fatal P e err"
  shows "\<exists>r rest. catch_block P ev mo n e =
     (r, OnFailedAttempt (createRetryContext err n (retries mo)) # rest)"
  using assms
  by (simp add: catch_block_def Let_def split: outcome.splits prod.splits)

lemma catch_shouldRetry_second:
  assumes "as_error e = Inr err" and "\<not> is_fatal P e err"
    and "onFailedAttempt mo (createRetryContext err n (retries mo)) = Returns u"
    and "\<not> out_of_budget ev mo n"
  shows "\<exists>r rest. catch_block P ev mo n e =
     (r, OnFailedAttempt (createRetryContext err n (retries mo))
         # ShouldRetry (createRetryContext err n (retries mo)) # rest)"
  using assms
  by (simp add: catch_block_def Let_def split: outcome.splits prod.splits)

section \<open>Runs in which every attempt fails\<close>

lemma delay_no_signal:
  assumes "signal mo = None"
  shows "\<exists>evs. delay mo n d = (None, evs) \<and> invocations evs = []"
  using assms by (simp add: delay_def Let_def)

lemma backoff_wait_no_signal:
  assumes "signal mo = None" and "maxRetryTime mo = PInf"
  shows "\<exists>evs. backoff_wait ev mo n err (elapsed ev n) = (None, evs) \<and> invocations evs = []"
proof -
  obtain evs where "delay mo n (js_min (calculateDelay ev (math_random ev n) (int n) mo) PInf) = (None, evs)"
    "invocations evs = []"
    using delay_no_signal [OF assms(1)] by blast
  then show ?thesis
    using assms
    by (simp add: backoff_wait_def Let_def throwIfAborted_no_signal elapsed_fin no_budget_PInf)
qed

lemma attempt_retried:
  assumes "signal mo = None" and "maxRetryTime mo = PInf" and "retries mo = Fin (real N)"
    and "\<And>c. onFailedAttempt mo c = Returns ()" and "\<And>c. shouldRetry mo c = Returns True"
    and "input n = Throws e" and "as_error e = Inr err" and "\<not> is_fatal P e err" and "n \<le> N"
  shows "\<exists>evs. attempt P ev input mo n = (Continue, Invoke n # evs) \<and> invocations evs = []"
proof -
  obtain evs where w: "backoff_wait ev mo n err (elapsed ev n) = (None, evs)"
      "invocations evs = []"
    using backoff_wait_no_signal [OF assms(1,2)] by blast
  have "\<not> out_of_budget ev mo n"
    using assms(9) by (simp add: out_of_budget_fin [OF assms(2,3)])
  then have "catch_block P ev mo n e =
      (None, [OnFailedAttempt (createRetryContext err n (retries mo)),
              ShouldRetry (createRetryContext err n (retries mo))] @ evs)"
    using assms(4,5,7,8) w(1) by (simp add: catch_block_def Let_def)
  moreover have "try_block (signal mo) input n = (Inl e, [Invoke n])"
    using assms(1,6) by (simp add: try_block_throws throwIfAborted_no_signal)
  ultimately show ?thesis
    using w(2) by (simp add: attempt_goes_on)
qed

lemma attempt_last:
  assumes "signal mo = None" and "maxRetryTime mo = PInf" and "retries mo = Fin (real N)"
    and "\<And>c. onFailedAttempt mo c = Returns ()"
    and "input (Suc N) = Throws e" and "as_error e = Inr err" and "\<not> is_fatal P e err"
  shows "attempt P ev input mo (Suc N) =
     (Done (Rejected err),
      [Invoke (Suc N), OnFailedAttempt (createRetryContext err (Suc N) (retries mo))])"
proof -
  have "out_of_budget ev mo (Suc N)"
    by (simp add: out_of_budget_fin [OF assms(2,3)])
  then have "catch_block P ev mo (Suc N) e =
      (Some err, [OnFailedAttempt (createRetryContext err (Suc N) (retries mo))])"
    using assms(4,6,7) by (intro catch_out_of_budget)
  moreover have "try_block (signal mo) input (Suc N) = (Inl e, [Invoke (Suc N)])"
    using assms(1,5) by (simp add: try_block_throws throwIfAborted_no_signal)
  ultimately show ?thesis
    by (simp add: attempt_rethrows)
qed

lemma loop_always_failing:
  assumes "signal mo = None" and "maxRetryTime mo = PInf" and "retries mo = Fin (real N)"
    and "\<And>c. onFailedAttempt mo c = Returns ()" and "\<And>c. shouldRetry mo c = Returns True"
    and "\<forall>n. input n = Throws (e n) \<and> as_error (e n) = Inr (err n) \<and> \<not> is_fatal P (e n) (err n)"
    and "a \<le> N"
  shows "\<exists>tr'. retry_loop P ev input mo a tr = Some (Rejected (err (Suc N)), tr')
           \<and> invocations tr' = invocations tr @ [Suc a..<Suc (Suc N)]"
  using assms(7)
proof (induction "N - a" arbitrary: a tr)
  case 0
  then have a: "a = N" by simp
  have g: "js_lt (num a) (js_add (retries mo) (Fin 1))"
    using a assms(3) by (simp add: guard_fin)
  have l: "input (Suc N) = Throws (e (Suc N))" "as_error (e (Suc N)) = Inr (err (Suc N))"
      "\<not> is_fatal P (e (Suc N)) (err (Suc N))"
    using assms(6) by simp_all
  have "attempt P ev input mo (Suc N) =
     (Done (Rejected (err (Suc N))),
      [Invoke (Suc N), OnFailedAttempt (createRetryContext (err (Suc N)) (Suc N) (retries mo))])"
    using assms(1-4) l by (intro attempt_last) auto
  then show ?case
    using loop_done [OF g, of P ev input] a by (simp add: invocations_append)
next
  case (Suc d)
  then have lt: "Suc a \<le> N" and d: "d = N - Suc a" by simp_all
  have g: "js_lt (num a) (js_add (retries mo) (Fin 1))"
    using lt assms(3) by (simp add: guard_fin)
  obtain evs where evs: "attempt P ev input mo (Suc a) = (Continue, Invoke (Suc a) # evs)"
      "invocations evs = []"
    using attempt_retried [OF assms(1-5) _ _ _ lt, of input "e (Suc a)" "err (Suc a)" P ev] assms(6)
    by blast
  obtain tr' where tr': "retry_loop P ev input mo (Suc a) (tr @ Invoke (Suc a) # evs)
        = Some (Rejected (err (Suc N)), tr')"
      "invocations tr' = invocations (tr @ Invoke (Suc a) # evs) @ [Suc (Suc a)..<Suc (Suc N)]"
    using Suc.hyps(1) [OF d lt] by blast
  have "[Suc a..<Suc (Suc N)] = Suc a # [Suc (Suc a)..<Suc (Suc N)]"
    using lt by (simp add: upt_conv_Cons)
  then show ?case
    using loop_continue [OF g evs(1)] tr' evs(2) by (simp add: invocations_append)
qed

section \<open>The retry budget\<close>

text \<open>
  C1. For every natural number \<open>N\<close>, \<open>pRetry\<close> called with \<open>retries = N\<close> on an operation
  that throws a retriable value on every attempt calls the operation exactly \<open>N + 1\<close> times,
  with the attempt numbers \<open>1, \<dots>, N + 1\<close>, and then rejects with the error of attempt
  \<open>N + 1\<close> (the value of \<open>error\<close> at line 72 for the thrown value: the value itself when it
  is an error). A thrown value is retriable when line 73 does not throw and the condition
  of line 75 is false. The other options are as they are by default or better: no signal,
  no time budget, an \<open>onFailedAttempt\<close> that returns and a \<open>shouldRetry\<close> that accepts; the
  backoff options and the arithmetic of the engine are arbitrary.
\<close>

theorem pRetry_always_failing:
  assumes "opt_retries opts = Some (Fin (real N))"
    and "signal (merge_options opts) = None"
    and "maxRetryTime (merge_options opts) = PInf"
    and "\<And>c. onFailedAttempt (merge_options opts) c = Returns ()"
    and "\<And>c. shouldRetry (merge_options opts) c = Returns True"
    and "\<And>n. input n = Throws (e n) \<and> as_error (e n) = Inr (err n)
              \<and> \<not> is_fatal isNetworkError (e n) (err n)"
  shows "\<exists>tr. pRetry isNetworkError ev input opts = Some (Rejected (err (N + 1)), tr)
           \<and> invocations tr = [1..<N + 2]"
proof -
  have r: "retries (merge_options opts) = Fin (real N)"
    using assms(1) by (simp add: merge_options_def)
  have "pRetry isNetworkError ev input opts = retry_loop isNetworkError ev input (merge_options opts) 0 []"
    using assms(2) r by (simp add: pRetry_def Let_def throwIfAborted_no_signal)
  moreover have "\<forall>n. input n = Throws (e n) \<and> as_error (e n) = Inr (err n)
      \<and> \<not> is_fatal isNetworkError (e n) (err n)"
    using assms(6) by blast
  then obtain tr where "retry_loop isNetworkError ev input (merge_options opts) 0 [] =
        Some (Rejected (err (Suc N)), tr)"
      and "invocations tr = invocations [] @ [Suc 0..<Suc (Suc N)]"
    using loop_always_failing [OF assms(2,3) r assms(4,5), where a = 0 and tr = "[]"]
    by blast
  ultimately show ?thesis by simp
qed

theorem pRetry_always_failing_witness:
  "\<exists>tr. pRetry (\<lambda>x. False) steady_env (\<lambda>n. Throws (new_Error ''test''))
            (empty_options\<lparr>opt_retries := Some (Fin 2), opt_minTimeout := Some (Fin 0)\<rparr>)
          = Some (Rejected (new_Error ''test''), tr) \<and> invocations tr = [1, 2, 3]"
  using pRetry_always_failing [of "empty_options\<lparr>opt_retries := Some (Fin 2), opt_minTimeout := Some (Fin 0)\<rparr>"
      2 "\<lambda>n. Throws (new_Error ''test'')" "\<lambda>n. new_Error ''test''" "\<lambda>n. new_Error ''test''" "\<lambda>x. False" steady_env]
  by (simp add: empty_options_def merge_options_def is_fatal_def new_Error_def upt_rec eval_nat_numeral)

text \<open>
  C8. When the caller passes a negative number for \<open>retries\<close> (\<open>-Infinity\<close> included), the
  promise of \<open>pRetry\<close> is rejected with the \<open>TypeError\<close> of line 50 before anything else
  happens: the run has no event, so the operation is never called, whatever the signal and
  the other options are.
\<close>

theorem negative_retries_rejected:
  assumes "opt_retries opts = Some r" and "js_lt r (Fin 0)"
  shows "pRetry isNetworkError ev input opts =
     Some (Rejected (new_TypeError ''Expected `retries` to be a non-negative number.''), [])"
  using assms by (simp add: pRetry_def merge_options_def)

theorem negative_retries_rejected_witness:
  "pRetry (\<lambda>x. False) steady_env (\<lambda>n. Returns ()) (empty_options\<lparr>opt_retries := Some (Fin (- 1))\<rparr>) =
     Some (Rejected (new_TypeError ''Expected `retries` to be a non-negative number.''), [])"
  using negative_retries_rejected [where opts = "empty_options\<lparr>opt_retries := Some (Fin (- 1))\<rparr>"
      and r = "Fin (- 1)" and isNetworkError = "\<lambda>x. False" and ev = steady_env and input = "\<lambda>n. Returns ()"]
  by (simp add: empty_options_def)

text \<open>
  C10. When \<open>retries\<close> is \<open>NaN\<close> and the signal is not already aborted at the call, the
  check of line 49 passes (\<open>NaN < 0\<close> is false), the guard of the loop
  \<open>attemptNumber < retries + 1\<close> is false at the first test, and \<open>pRetry\<close> rejects with the
  error of line 133 without an event: the operation is never called.
\<close>

theorem nan_retries_exhausted:
  assumes "opt_retries opts = Some NaN"
    and "signal_throwIfAborted (opt_signal opts) AtCall = None"
  shows "\<not> js_lt NaN (Fin 0)
     \<and> \<not> js_lt (num 0) (js_add NaN (Fin 1))
     \<and> pRetry isNetworkError ev input opts =
         Some (Rejected (new_Error ''Retry attempts exhausted without throwing an error.''), [])"
proof -
  have "retries (merge_options opts) = NaN" and "signal (merge_options opts) = opt_signal opts"
    using assms(1) by (simp_all add: merge_options_def)
  then show ?thesis
    using assms(2) by (simp add: pRetry_def Let_def loop_exit num_def)
qed

theorem nan_retries_exhausted_witness:
  "pRetry (\<lambda>x. False) steady_env (\<lambda>n. Returns ()) (empty_options\<lparr>opt_retries := Some NaN\<rparr>) =
     Some (Rejected (new_Error ''Retry attempts exhausted without throwing an error.''), [])"
  using nan_retries_exhausted [where opts = "empty_options\<lparr>opt_retries := Some NaN\<rparr>"
      and isNetworkError = "\<lambda>x. False" and ev = steady_env and input = "\<lambda>n. Returns ()"]
  by (simp add: empty_options_def throwIfAborted_no_signal)

section \<open>The delays\<close>

text \<open>
  C3. With \<open>randomize\<close> not set, finite \<open>factor = f\<close> and \<open>minTimeout = m\<close>, the delay that
  \<open>calculateDelay\<close> computes after attempt \<open>i \<ge> 1\<close> is
  \<open>Math.min(Math.round(Math.max(m, 1) * f ** (i - 1)), maxTimeout)\<close>, the product and the
  power being those of the engine, whatever its arithmetic is; it does not depend on the
  random source. When \<open>m \<ge> 1\<close> and \<open>Math.round\<close> leaves the product \<open>m * f ** (i - 1)\<close> as it
  is (it is a whole number, or not finite), the delay is
  \<open>Math.min(m * f ** (i - 1), maxTimeout)\<close>. When moreover the engine's power is the exact
  one and the real number \<open>m * f ^ (i - 1)\<close> is an integer of magnitude at most \<open>2 ^ 53\<close>,
  where doubles are exact, the delay is that real number, clamped to \<open>maxTimeout\<close>.
\<close>

theorem calculateDelay_without_jitter:
  fixes i :: nat
  assumes "randomize options \<noteq> Some True"
    and "factor options = Fin f" and "minTimeout options = Fin m" and "1 \<le> i"
  shows "calculateDelay ar rnd (int i) options =
           js_min (js_round (js_mul ar (Fin (max m 1)) (js_pow ar (Fin f) (int i - 1))))
                  (maxTimeout options)
         \<and> calculateDelay ar rnd' (int i) options = calculateDelay ar rnd (int i) options
         \<and> (1 \<le> m \<and> js_round (js_mul ar (Fin m) (js_pow ar (Fin f) (int i - 1)))
                        = js_mul ar (Fin m) (js_pow ar (Fin f) (int i - 1)) \<longrightarrow>
              calculateDelay ar rnd (int i) options =
                js_min (js_mul ar (Fin m) (js_pow ar (Fin f) (int i - 1))) (maxTimeout options))
         \<and> (1 \<le> m \<and> js_pow ar (Fin f) (int i - 1) = Fin (f ^ (i - 1))
                   \<and> exact_int (m * f ^ (i - 1)) \<longrightarrow>
              calculateDelay ar rnd (int i) options =
                js_min (Fin (m * f ^ (i - 1))) (maxTimeout options))"
proof -
  have eq: "calculateDelay ar r (int i) options =
           js_min (js_round (js_mul ar (Fin (max m 1)) (js_pow ar (Fin f) (int i - 1))))
                  (maxTimeout options)" for r
    using assms by (simp add: calculateDelay_fixed js_max_fin)
  have whole: "calculateDelay ar rnd (int i) options =
                js_min (js_mul ar (Fin m) (js_pow ar (Fin f) (int i - 1))) (maxTimeout options)"
    if "1 \<le> m" and "js_round (js_mul ar (Fin m) (js_pow ar (Fin f) (int i - 1)))
                        = js_mul ar (Fin m) (js_pow ar (Fin f) (int i - 1))"
  proof -
    have "max m 1 = m" using that(1) by simp
    then show ?thesis using eq [of rnd] that(2) by simp
  qed
  have exact: "calculateDelay ar rnd (int i) options =
                js_min (Fin (m * f ^ (i - 1))) (maxTimeout options)"
    if "1 \<le> m" and "js_pow ar (Fin f) (int i - 1) = Fin (f ^ (i - 1))"
      and "exact_int (m * f ^ (i - 1))"
  proof -
    have p: "js_mul ar (Fin m) (js_pow ar (Fin f) (int i - 1)) = Fin (m * f ^ (i - 1))"
      unfolding that(2) using that(3) by (rule js_mul_exact)
    have "js_round (Fin (m * f ^ (i - 1))) = Fin (m * f ^ (i - 1))"
      using that(3) by (intro js_round_int exact_int_Ints)
    then show ?thesis using whole [OF that(1)] p by simp
  qed
  show ?thesis using eq whole exact by simp
qed

theorem calculateDelay_without_jitter_witness:
  "calculateDelay steady_env 0 (int 3)
      \<lparr>factor = Fin 3, minTimeout = Fin 100, maxTimeout = Fin 1500, randomize = Some False\<rparr> = Fin 900
   \<and> calculateDelay steady_env 0 (int 4)
      \<lparr>factor = Fin 3, minTimeout = Fin 100, maxTimeout = Fin 1500, randomize = Some False\<rparr> = Fin 1500
   \<and> calculateDelay engine_at_1_15 0 (int 2)
      \<lparr>factor = Fin double_1_15, minTimeout = Fin 10, maxTimeout = PInf, randomize = Some False\<rparr> = Fin 12"
proof -
  let ?q = "\<lparr>factor = Fin double_1_15, minTimeout = Fin 10, maxTimeout = PInf, randomize = Some False\<rparr>"
  have "\<not> exact_int (10 * double_1_15)"
    by (simp add: exact_int_def double_1_15_def)
  moreover have "double_1_15 \<noteq> 0" and "double_1_15 \<noteq> 1"
    by (simp_all add: double_1_15_def)
  ultimately
  have "js_round (js_mul engine_at_1_15 (Fin (max 10 1)) (js_pow engine_at_1_15 (Fin double_1_15) (int 2 - 1)))
      = Fin 12"
    by (simp add: js_pow.simps engine_at_1_15_def)
  then have third: "calculateDelay engine_at_1_15 0 (int 2) ?q = Fin 12"
    using calculateDelay_without_jitter
      [where options = ?q and f = double_1_15 and m = 10 and i = 2 and ar = engine_at_1_15
         and rnd = 0 and rnd' = 0]
    by simp
  let ?o = "\<lparr>factor = Fin 3, minTimeout = Fin 100, maxTimeout = Fin 1500, randomize = Some False\<rparr>"
  have p3: "js_pow steady_env (Fin 3) (int 3 - 1) = Fin (3 ^ (3 - 1))"
    and p4: "js_pow steady_env (Fin 3) (int 4 - 1) = Fin (3 ^ (4 - 1))"
    by (simp_all add: js_pow.simps steady_env_def)
  have x3: "exact_int (100 * 3 ^ (3 - 1))" and x4: "exact_int (100 * 3 ^ (4 - 1))"
    by (simp_all add: exact_int_def)
  have "calculateDelay steady_env 0 (int 3) ?o = js_min (Fin (100 * 3 ^ (3 - 1))) (maxTimeout ?o)"
    using calculateDelay_without_jitter
      [where options = ?o and f = 3 and m = 100 and i = 3 and ar = steady_env and rnd = 0 and rnd' = 0]
      p3 x3 by simp
  moreover
  have "calculateDelay steady_env 0 (int 4) ?o = js_min (Fin (100 * 3 ^ (4 - 1))) (maxTimeout ?o)"
    using calculateDelay_without_jitter
      [where options = ?o and f = 3 and m = 100 and i = 4 and ar = steady_env and rnd = 0 and rnd' = 0]
      p4 x4 by simp
  ultimately show ?thesis using third by simp
qed

text \<open>
  C4. With \<open>factor = 0\<close>, \<open>minTimeout = 100\<close> and no \<open>maxTimeout\<close>, the options of the test
  "should handle invalid factor values", the delay computed after the second attempt is
  \<open>0\<close>, below \<open>minTimeout\<close>, in every engine: \<open>0 ** 1\<close> is \<open>0\<close> by the language and the
  products \<open>1 * 100\<close> and \<open>100 * 0\<close> are exact.
\<close>

theorem calculateDelay_zero_factor:
  "calculateDelay ar 0 2 \<lparr>factor = Fin 0, minTimeout = Fin 100, maxTimeout = PInf, randomize = Some False\<rparr> = Fin 0
   \<and> js_lt (Fin 0) (Fin 100)"
  by (simp add: calculateDelay_def js_pow.simps exact_int_def)

section \<open>Fatal errors\<close>

text \<open>
  C2. When the loop starts attempt \<open>a + 1\<close> and the operation throws there an
  \<open>AbortError\<close>, or a \<open>TypeError\<close> that \<open>isNetworkError\<close> does not recognise, the catch
  block rethrows the value without an event (no context, no \<open>onFailedAttempt\<close>, no
  \<open>shouldRetry\<close>, no timer), and \<open>pRetry\<close> rejects with the very value thrown; the call of the
  operation with attempt number \<open>a + 1\<close> is the last event of the run.
\<close>

theorem fatal_error_propagates:
  assumes "js_lt (num a) (js_add (retries mo) (Fin 1))"
    and "signal_throwIfAborted (signal mo) (BeforeInput (Suc a)) = None"
    and "input (Suc a) = Throws e"
    and "instanceof_AbortError e \<or> (instanceof_TypeError e \<and> \<not> isNetworkError e)"
  shows "catch_block isNetworkError ev mo (Suc a) e = (Some e, [])
     \<and> retry_loop isNetworkError ev input mo a tr = Some (Rejected e, tr @ [Invoke (Suc a)])
     \<and> invocations (tr @ [Invoke (Suc a)]) = invocations tr @ [Suc a]"
proof -
  have k: "instanceof_AbortError e \<or> instanceof_TypeError e"
    using assms(4) by blast
  have f: "is_fatal isNetworkError e e"
    using assms(4) is_fatal_iff(2) [OF k] by blast
  have c: "catch_block isNetworkError ev mo (Suc a) e = (Some e, [])"
    using is_fatal_iff(1) [OF k] f by (rule catch_fatal)
  have t: "try_block (signal mo) input (Suc a) = (Inl e, [Invoke (Suc a)])"
    using assms(2,3) by (simp add: try_block_throws)
  have "attempt isNetworkError ev input mo (Suc a) = (Done (Rejected e), [Invoke (Suc a)] @ [])"
    using t c by (rule attempt_rethrows)
  from loop_done [OF assms(1) this]
  have "retry_loop isNetworkError ev input mo a tr = Some (Rejected e, tr @ [Invoke (Suc a)])"
    by simp
  then show ?thesis
    using c by (simp add: invocations_append)
qed

theorem fatal_error_propagates_witness:
  "pRetry (\<lambda>x. False) steady_env abort_on_third retries5 =
     Some (Rejected (ErrorObj AbortErrorC ''No point in retrying'' (Some (new_Error ''fixture''))),
           first_two_attempts @ [Invoke 3])
   \<and> invocations (first_two_attempts @ [Invoke 3]) = [1, 2, 3]"
proof -
  have reach: "pRetry (\<lambda>x. False) steady_env abort_on_third retries5 =
      retry_loop (\<lambda>x. False) steady_env abort_on_third (merge_options retries5) 2 first_two_attempts"
    by code_simp
  have "retry_loop (\<lambda>x. False) steady_env abort_on_third (merge_options retries5) (Suc 1) first_two_attempts =
      Some (Rejected (ErrorObj AbortErrorC ''No point in retrying'' (Some (new_Error ''fixture''))),
            first_two_attempts @ [Invoke (Suc (Suc 1))])"
    using fatal_error_propagates [where a = "Suc 1" and mo = "merge_options retries5"
        and input = abort_on_third and isNetworkError = "\<lambda>x. False" and ev = steady_env
        and tr = first_two_attempts
        and e = "ErrorObj AbortErrorC ''No point in retrying'' (Some (new_Error ''fixture''))"]
    by (simp add: retries5_def empty_options_def merge_options_def num_def
        throwIfAborted_no_signal abort_on_third_def)
  moreover have "invocations (first_two_attempts @ [Invoke 3]) = [1, 2, 3]"
    by code_simp
  ultimately show ?thesis
    using reach by (simp add: eval_nat_numeral)
qed

section \<open>The hooks\<close>

text \<open>
  C5. When the \<open>try\<close> block of attempt \<open>a + 1\<close> throws a value that is retriable (line 73
  does not throw and the condition of line 75 is false), the first thing that happens next
  is the call of \<open>onFailedAttempt\<close> with the retry context, whatever the budgets are. If the
  hook throws \<open>h\<close>, \<open>pRetry\<close> rejects with \<open>h\<close> and nothing happens after the call of the
  hook. If the hook returns and the time budget or the retry budget is used up, \<open>pRetry\<close>
  rejects with the error of the operation, the hook having been called.
\<close>

theorem onFailedAttempt_runs_first:
  assumes "js_lt (num a) (js_add (retries mo) (Fin 1))"
    and "try_block (signal mo) input (Suc a) = (Inl e, evs0)"
    and "as_error e = Inr err"
    and "\<not> is_fatal isNetworkError e err"
    and "context = createRetryContext err (Suc a) (retries mo)"
  shows "(\<exists>r rest. attempt isNetworkError ev input mo (Suc a) = (r, evs0 @ OnFailedAttempt context # rest))
     \<and> (\<forall>h. onFailedAttempt mo context = Throws h \<longrightarrow>
           retry_loop isNetworkError ev input mo a tr =
             Some (Rejected h, tr @ evs0 @ [OnFailedAttempt context]))
     \<and> (onFailedAttempt mo context = Returns () \<and> out_of_budget ev mo (Suc a) \<longrightarrow>
           retry_loop isNetworkError ev input mo a tr =
             Some (Rejected err, tr @ evs0 @ [OnFailedAttempt context]))"
proof -
  obtain r rest where c: "catch_block isNetworkError ev mo (Suc a) e = (r, OnFailedAttempt context # rest)"
    using catch_hook_first [OF assms(3,4)] assms(5) by blast
  have first: "\<exists>r rest. attempt isNetworkError ev input mo (Suc a) = (r, evs0 @ OnFailedAttempt context # rest)"
  proof (cases r)
    case None
    then show ?thesis using attempt_goes_on [OF assms(2)] c by blast
  next
    case (Some x)
    then show ?thesis using attempt_rethrows [OF assms(2)] c by blast
  qed
  have throws: "retry_loop isNetworkError ev input mo a tr =
             Some (Rejected h, tr @ evs0 @ [OnFailedAttempt context])"
    if "onFailedAttempt mo context = Throws h" for h
  proof -
    have "catch_block isNetworkError ev mo (Suc a) e = (Some h, [OnFailedAttempt context])"
      using assms(3,4) that unfolding assms(5) by (rule catch_hook_throws)
    then have "attempt isNetworkError ev input mo (Suc a) = (Done (Rejected h), evs0 @ [OnFailedAttempt context])"
      using assms(2) by (simp add: attempt_rethrows)
    from loop_done [OF assms(1) this] show ?thesis by simp
  qed
  have stops: "retry_loop isNetworkError ev input mo a tr =
             Some (Rejected err, tr @ evs0 @ [OnFailedAttempt context])"
    if "onFailedAttempt mo context = Returns ()" and "out_of_budget ev mo (Suc a)"
  proof -
    have "catch_block isNetworkError ev mo (Suc a) e = (Some err, [OnFailedAttempt context])"
      using assms(3,4) that unfolding assms(5) by (rule catch_out_of_budget)
    then have "attempt isNetworkError ev input mo (Suc a) =
        (Done (Rejected err), evs0 @ [OnFailedAttempt context])"
      using assms(2) by (simp add: attempt_rethrows)
    from loop_done [OF assms(1) this] show ?thesis by simp
  qed
  show ?thesis using first throws stops by blast
qed

theorem onFailedAttempt_runs_first_witness:
  "pRetry (\<lambda>x. False) steady_env always_fixture throwing_hook =
     Some (Rejected (new_Error ''thrown from onFailedAttempt''),
           [Invoke 1, OnFailedAttempt (createRetryContext (new_Error ''fixture'') 1 (Fin 10))])
   \<and> pRetry (\<lambda>x. False) steady_env always_fixture (empty_options\<lparr>opt_retries := Some (Fin 0)\<rparr>) =
     Some (Rejected (new_Error ''fixture''),
           [Invoke 1, OnFailedAttempt (createRetryContext (new_Error ''fixture'') 1 (Fin 0))])"
proof -
  have e: "as_error (new_Error ''fixture'') = Inr (new_Error ''fixture'')"
    and nf: "\<not> is_fatal (\<lambda>x. False) (new_Error ''fixture'') (new_Error ''fixture'')"
    by (simp_all add: new_Error_def is_fatal_def)
  have m1: "retries (merge_options throwing_hook) = Fin 10"
    "signal (merge_options throwing_hook) = None"
    "onFailedAttempt (merge_options throwing_hook) = (\<lambda>c. Throws (new_Error ''thrown from onFailedAttempt''))"
    by (simp_all add: throwing_hook_def empty_options_def merge_options_def)
  have t1: "try_block (signal (merge_options throwing_hook)) always_fixture (Suc 0)
      = (Inl (new_Error ''fixture''), [Invoke (Suc 0)])"
    by (simp add: m1 try_block_def always_fixture_def throwIfAborted_no_signal)
  have g1: "js_lt (num 0) (js_add (retries (merge_options throwing_hook)) (Fin 1))"
    by (simp add: m1 num_def)
  have "retry_loop (\<lambda>x. False) steady_env always_fixture (merge_options throwing_hook) 0 [] =
      Some (Rejected (new_Error ''thrown from onFailedAttempt''),
           [Invoke 1, OnFailedAttempt (createRetryContext (new_Error ''fixture'') 1 (Fin 10))])"
    using onFailedAttempt_runs_first [OF g1 t1 e nf refl, of steady_env "[]"]
    by (simp add: m1)
  then have first: "pRetry (\<lambda>x. False) steady_env always_fixture throwing_hook =
     Some (Rejected (new_Error ''thrown from onFailedAttempt''),
           [Invoke 1, OnFailedAttempt (createRetryContext (new_Error ''fixture'') 1 (Fin 10))])"
    by (simp add: pRetry_enters_loop throwing_hook_def empty_options_def merge_options_def throwIfAborted_no_signal)
  let ?o = "empty_options\<lparr>opt_retries := Some (Fin 0)\<rparr>"
  have m2: "retries (merge_options ?o) = Fin 0"
    "signal (merge_options ?o) = None"
    "maxRetryTime (merge_options ?o) = PInf"
    "onFailedAttempt (merge_options ?o) = (\<lambda>c. Returns ())"
    by (simp_all add: empty_options_def merge_options_def)
  have t2: "try_block (signal (merge_options ?o)) always_fixture (Suc 0)
      = (Inl (new_Error ''fixture''), [Invoke (Suc 0)])"
    by (simp add: m2 try_block_def always_fixture_def throwIfAborted_no_signal)
  have g2: "js_lt (num 0) (js_add (retries (merge_options ?o)) (Fin 1))"
    by (simp add: m2 num_def)
  have b2: "out_of_budget steady_env (merge_options ?o) (Suc 0)"
    using out_of_budget_fin [OF m2(3), of 0 steady_env "Suc 0"] m2(1) by simp
  have "retry_loop (\<lambda>x. False) steady_env always_fixture (merge_options ?o) 0 [] =
      Some (Rejected (new_Error ''fixture''),
           [Invoke 1, OnFailedAttempt (createRetryContext (new_Error ''fixture'') 1 (Fin 0))])"
    using onFailedAttempt_runs_first [OF g2 t2 e nf refl, of steady_env "[]"] b2
    by (simp add: m2)
  then have second: "pRetry (\<lambda>x. False) steady_env always_fixture ?o =
     Some (Rejected (new_Error ''fixture''),
           [Invoke 1, OnFailedAttempt (createRetryContext (new_Error ''fixture'') 1 (Fin 0))])"
    by (simp add: pRetry_enters_loop empty_options_def merge_options_def throwIfAborted_no_signal)
  show ?thesis using first second by simp
qed

text \<open>
  C7. When the \<open>try\<close> block of attempt \<open>a + 1\<close> throws a value that is retriable,
  \<open>onFailedAttempt\<close> returns and \<open>shouldRetry(context)\<close> is \<open>false\<close>, \<open>pRetry\<close> rejects with
  the error of the operation, and the run ends with the calls of the hooks of this attempt:
  the operation is not called again, however large \<open>retries\<close> is.
\<close>

theorem shouldRetry_false_stops:
  assumes "js_lt (num a) (js_add (retries mo) (Fin 1))"
    and "try_block (signal mo) input (Suc a) = (Inl e, evs0)"
    and "as_error e = Inr err"
    and "\<not> is_fatal isNetworkError e err"
    and "context = createRetryContext err (Suc a) (retries mo)"
    and "onFailedAttempt mo context = Returns ()"
    and "shouldRetry mo context = Returns False"
  shows "retry_loop isNetworkError ev input mo a tr =
           Some (Rejected err,
                 tr @ evs0 @ OnFailedAttempt context
                    # (if out_of_budget ev mo (Suc a) then [] else [ShouldRetry context]))"
proof -
  have "catch_block isNetworkError ev mo (Suc a) e =
      (Some err,
       OnFailedAttempt context # (if out_of_budget ev mo (Suc a) then [] else [ShouldRetry context]))"
    using assms(3,4,6,7) unfolding assms(5)
    by (simp add: catch_out_of_budget catch_shouldRetry_false)
  then have "attempt isNetworkError ev input mo (Suc a) =
      (Done (Rejected err),
       evs0 @ OnFailedAttempt context # (if out_of_budget ev mo (Suc a) then [] else [ShouldRetry context]))"
    using assms(2) by (simp add: attempt_rethrows)
  from loop_done [OF assms(1) this] show ?thesis by simp
qed

theorem shouldRetry_false_stops_witness:
  "pRetry (\<lambda>x. False) steady_env always_fixture never_retry =
     Some (Rejected (new_Error ''fixture''),
           [Invoke 1, OnFailedAttempt (createRetryContext (new_Error ''fixture'') 1 (Fin 10)),
            ShouldRetry (createRetryContext (new_Error ''fixture'') 1 (Fin 10))])"
proof -
  have e: "as_error (new_Error ''fixture'') = Inr (new_Error ''fixture'')"
    and nf: "\<not> is_fatal (\<lambda>x. False) (new_Error ''fixture'') (new_Error ''fixture'')"
    by (simp_all add: new_Error_def is_fatal_def)
  have m: "retries (merge_options never_retry) = Fin 10"
    "signal (merge_options never_retry) = None"
    "maxRetryTime (merge_options never_retry) = PInf"
    "onFailedAttempt (merge_options never_retry) = (\<lambda>c. Returns ())"
    "shouldRetry (merge_options never_retry) = (\<lambda>c. Returns False)"
    by (simp_all add: never_retry_def empty_options_def merge_options_def)
  have t: "try_block (signal (merge_options never_retry)) always_fixture (Suc 0)
      = (Inl (new_Error ''fixture''), [Invoke (Suc 0)])"
    by (simp add: m try_block_def always_fixture_def throwIfAborted_no_signal)
  have g: "js_lt (num 0) (js_add (retries (merge_options never_retry)) (Fin 1))"
    by (simp add: m num_def)
  have b: "\<not> out_of_budget steady_env (merge_options never_retry) (Suc 0)"
    using out_of_budget_fin [OF m(3), of 10 steady_env "Suc 0"] m(1) by simp
  have "retry_loop (\<lambda>x. False) steady_env always_fixture (merge_options never_retry) 0 [] =
     Some (Rejected (new_Error ''fixture''),
           [Invoke 1, OnFailedAttempt (createRetryContext (new_Error ''fixture'') 1 (Fin 10)),
            ShouldRetry (createRetryContext (new_Error ''fixture'') 1 (Fin 10))])"
    using shouldRetry_false_stops [OF g t e nf refl, of steady_env "[]"] b
    by (simp add: m)
  then show ?thesis
    by (simp add: pRetry_enters_loop never_retry_def empty_options_def merge_options_def throwIfAborted_no_signal)
qed

section \<open>Thrown values that are not errors\<close>

text \<open>
  A thrown value \<open>v\<close> that is not an error and that converts to a string is retriable: the
  value of \<open>error\<close> is a \<open>TypeError\<close>, and yet the condition of line 75 is false, whatever
  \<open>isNetworkError\<close> says of that \<open>TypeError\<close>, since the condition looks at \<open>v\<close>. The attempt
  goes on as for any retriable error: the call of \<open>onFailedAttempt\<close> with the wrapper in the
  context follows the \<open>try\<close> block, and the call of \<open>shouldRetry\<close> follows it when the hook
  returns and the budgets are not used up. For a thrown string \<open>s\<close> the message of the
  wrapper holds \<open>s\<close> between quotes.
\<close>

lemma convertible_non_error_is_retriable:
  assumes "\<not> instanceof_Error v"
    and "as_error v = Inr w"
    and "context = createRetryContext w n (retries mo)"
  shows "instanceof_TypeError w
     \<and> \<not> is_fatal isNetworkError v w
     \<and> (try_block (signal mo) input n = (Inl v, evs0) \<longrightarrow>
          (\<exists>r rest. attempt isNetworkError ev input mo n = (r, evs0 @ OnFailedAttempt context # rest)
             \<and> (onFailedAttempt mo context = Returns () \<and> \<not> out_of_budget ev mo n \<longrightarrow>
                  (\<exists>rest'. rest = ShouldRetry context # rest'))))"
proof -
  have nf: "\<not> is_fatal isNetworkError v w"
    using assms(1) by (cases v) (simp_all add: is_fatal_def)
  have ty: "instanceof_TypeError w"
    using assms(1,2)
    by (cases v rule: as_error.cases) (auto simp add: non_error_thrown_def new_TypeError_def)
  have ev: "\<exists>r rest. attempt isNetworkError ev input mo n = (r, evs0 @ OnFailedAttempt context # rest)
             \<and> (onFailedAttempt mo context = Returns () \<and> \<not> out_of_budget ev mo n \<longrightarrow>
                  (\<exists>rest'. rest = ShouldRetry context # rest'))"
    if t: "try_block (signal mo) input n = (Inl v, evs0)"
  proof -
    obtain r rest where c: "catch_block isNetworkError ev mo n v = (r, OnFailedAttempt context # rest)"
      using catch_hook_first [OF assms(2) nf] assms(3) by blast
    have "snd (attempt isNetworkError ev input mo n) = evs0 @ OnFailedAttempt context # rest"
      using attempt_events [OF t] c by simp
    then have a: "attempt isNetworkError ev input mo n =
        (fst (attempt isNetworkError ev input mo n), evs0 @ OnFailedAttempt context # rest)"
      by (simp add: prod_eq_iff)
    have "\<exists>rest'. rest = ShouldRetry context # rest'"
      if "onFailedAttempt mo context = Returns ()" and "\<not> out_of_budget ev mo n"
      using catch_shouldRetry_second [OF assms(2) nf, of mo n "()" ev] that c unfolding assms(3) by auto
    then show ?thesis using a by blast
  qed
  show ?thesis
    using nf ty ev by simp
qed

lemma thrown_string_wrapped:
  \<open>as_error (Str s) =
     Inr (new_TypeError (''Non-error was thrown: "'' @ s @ ''". You should only throw errors.''))\<close>
  by (simp add: non_error_thrown_def)

lemma thrown_foo_reaches_hooks:
  \<open>as_error (Str ''foo'') =
     Inr (new_TypeError ''Non-error was thrown: "foo". You should only throw errors.'')
   \<and> (\<exists>r rest. attempt (\<lambda>x. False) steady_env throws_foo (merge_options empty_options) 1 =
         (r, [Invoke 1,
              OnFailedAttempt (createRetryContext (non_error_thrown ''foo'') 1 (Fin 10)),
              ShouldRetry (createRetryContext (non_error_thrown ''foo'') 1 (Fin 10))] @ rest))\<close>
proof -
  have m: "retries (merge_options empty_options) = Fin 10"
    "signal (merge_options empty_options) = None"
    "maxRetryTime (merge_options empty_options) = PInf"
    "onFailedAttempt (merge_options empty_options) = (\<lambda>c. Returns ())"
    by (simp_all add: empty_options_def merge_options_def)
  have t: "try_block (signal (merge_options empty_options)) throws_foo (Suc 0)
      = (Inl (Str ''foo''), [Invoke (Suc 0)])"
    by (simp add: m try_block_def throws_foo_def throwIfAborted_no_signal)
  have b: "\<not> out_of_budget steady_env (merge_options empty_options) (Suc 0)"
    using out_of_budget_fin [OF m(3), of 10 steady_env "Suc 0"] m(1) by simp
  have w: "as_error (Str ''foo'') = Inr (non_error_thrown ''foo'')"
    by simp
  show ?thesis
    using convertible_non_error_is_retriable [where v = "Str ''foo''" and w = "non_error_thrown ''foo''"
        and n = "Suc 0" and mo = "merge_options empty_options" and isNetworkError = "\<lambda>x. False"
        and input = throws_foo and ?evs0.0 = "[Invoke (Suc 0)]" and ev = steady_env, OF _ w refl] t b
    by (auto simp add: m non_error_thrown_def)
qed

text \<open>
  C9. The operation throws \<open>Symbol('s')\<close>, a value that is not an error. The template
  literal of line 73 throws a \<open>TypeError\<close> inside the \<open>catch\<close> block: \<open>pRetry\<close> rejects with
  it after this one call of the operation. No wrapper is built, and neither
  \<open>onFailedAttempt\<close> nor \<open>shouldRetry\<close> is called, although ten retries are left.
\<close>

theorem symbol_throw_skips_hooks:
  "pRetry (\<lambda>x. False) steady_env throws_symbol empty_options =
     Some (Rejected (new_TypeError ''Cannot convert a Symbol value to a string''), [Invoke 1])
   \<and> retries (merge_options empty_options) = Fin 10"
  by code_simp

section \<open>Cancellation during the delay\<close>

text \<open>
  C6. The signal fires, with the reason \<open>new Error('Database unavailable')\<close>, while
  \<open>pRetry\<close> waits after the first failed attempt: the pending timer is cancelled, and
  \<open>pRetry\<close> rejects with the reason itself, an \<open>Error\<close> that is not an \<open>AbortError\<close> and has
  no cause.
\<close>

theorem abort_in_delay_rejects_with_reason:
  "pRetry (\<lambda>x. False) steady_env always_fixture (empty_options\<lparr>opt_signal := Some abort_in_first_delay\<rparr>) =
     Some (Rejected (new_Error ''Database unavailable''),
           [Invoke 1, OnFailedAttempt (createRetryContext (new_Error ''fixture'') 1 (Fin 10)),
            ShouldRetry (createRetryContext (new_Error ''fixture'') 1 (Fin 10)),
            SetTimeout (Fin 1000), TimerCancelled])
   \<and> cls (new_Error ''Database unavailable'') = PlainError
   \<and> cause (new_Error ''Database unavailable'') = None"
  by code_simp

end
